theory Spec2Isabelle
  imports Main "HOL-Library.Word"
begin

unbundle bit_operations_syntax

section \<open>Mblocks: the data model of \<^verbatim>\<open>src/mblock.c\<close>\<close>

text \<open>
  The module manages mblocks through opaque handles. A handle
  (\<^verbatim>\<open>struct mblock_descriptor *\<close>) is the address of the object's
  \<^verbatim>\<open>struct pmd_layout\<close>; the module casts between the two. Addresses are
  natural numbers, \<open>NULL\<close> is address 0, and memory is a total function from addresses
  to layouts, as in C, where any non-null pointer can be read.

  The integer types keep the widths of the C code: \<^verbatim>\<open>u64\<close>, \<^verbatim>\<open>size_t\<close> and
  \<^verbatim>\<open>loff_t\<close> are 64-bit words (\<^verbatim>\<open>loff_t\<close> is read as signed where the
  usual arithmetic conversions keep it signed), \<^verbatim>\<open>u32\<close> and \<^verbatim>\<open>int\<close> are 32-bit words.

  The structures, constants and macros the module uses are declared in
  \<^verbatim>\<open>mpool_defs.h\<close>, which is not part of the sources at hand. The records below
  hold the fields \<^verbatim>\<open>mblock.c\<close> reads and writes, with the widths its code implies:
  \<^verbatim>\<open>eld_mblen\<close> is printed with \<^verbatim>\<open>%d\<close> and bounded by the \<^verbatim>\<open>u32\<close>
  capacity, \<^verbatim>\<open>eld_state\<close> is copied into a \<^verbatim>\<open>u8\<close>.
\<close>

type_synonym u8 = "8 word"
type_synonym u32 = "32 word"
type_synonym u64 = "64 word"
type_synonym c_int = "32 word"
type_synonym size_t = "64 word"
type_synonym loff_t = "64 word"
type_synonym ptr = nat

abbreviation (input) NULL :: ptr where
  "NULL \<equiv> 0"

text \<open>
  \<^verbatim>\<open>merr_t\<close> packs an errno with the file and line that raised it; only the errno is
  kept here, so \<open>merr\<close> is the identity and 0 is success. The errno values are those
  of Linux; \<^verbatim>\<open>EBUG\<close> is the module's own code for a broken internal invariant.
\<close>

type_synonym merr_t = int

definition merr :: "int \<Rightarrow> merr_t" where
  "merr e = e"

definition ENOENT :: int where "ENOENT = 2"
definition EAGAIN :: int where "EAGAIN = 11"
definition EINVAL :: int where "EINVAL = 22"
definition EALREADY :: int where "EALREADY = 114"
definition EBUG :: int where "EBUG = 666"

text \<open>
  Modelled from the spec: the host's page size, the \<open>minimum I/O alignment unit\<close>, is
  the kernel's and not the module's; it is 4096 bytes here, as in the spec's scenarios.
  \<^verbatim>\<open>PAGE_ALIGNED\<close> is the kernel's mask test.
\<close>

definition PAGE_SHIFT :: nat where
  "PAGE_SHIFT = 12"

definition PAGE_SIZE :: u64 where
  "PAGE_SIZE = push_bit PAGE_SHIFT 1"

definition PAGE_ALIGNED :: "u64 \<Rightarrow> bool" where
  "PAGE_ALIGNED addr \<longleftrightarrow> addr AND (PAGE_SIZE - 1) = 0"

text \<open>
  Modelled from the spec: \<open>committed\<close> is one bit of the state word. The value of
  \<^verbatim>\<open>PMD_LYT_COMMITTED\<close> is in the missing header; bit 0 is taken.
\<close>

definition PMD_LYT_COMMITTED :: u8 where
  "PMD_LYT_COMMITTED = 1"

datatype obj_type_omf = OMF_OBJ_UNDEF | OMF_OBJ_MBLOCK | OMF_OBJ_MLOG

datatype mpool_rw_op = MPOOL_OP_READ | MPOOL_OP_WRITE

datatype req_flags = REQ_NONE | REQ_FUA

type_synonym mp_media_classp = nat

type_synonym kvec = "u8 list"

record omf_layout_descr =
  ol_zcnt :: u32

record pmd_layout =
  eld_objid :: u64
  eld_mblen :: u32
  eld_state :: u8
  eld_ref :: nat
  eld_ld :: omf_layout_descr

record mpool_dev_info =
  pdi_optiosz :: u32
  pdi_fua :: bool
  pdi_mclass :: mp_media_classp

record mpool_descriptor =
  pds_name :: string

record pmd_obj_capacity =
  moc_captgt :: u64
  moc_spare :: bool

record mblock_props =
  mpr_objid :: u64
  mpr_alloc_cap :: u32
  mpr_write_len :: u32
  mpr_optimal_wrsz :: u32
  mpr_mclassp :: mp_media_classp
  mpr_iscommitted :: u8

record mblock_props_ex =
  mbx_props :: mblock_props
  mbx_zonecnt :: u32

text \<open>
  A call stops without returning when an \<^verbatim>\<open>assert\<close> fails, when it divides by
  zero, or when it stores through a null pointer. (The \<^verbatim>\<open>assert\<close> macro is the
  module's own and is taken as written: a condition that must hold for the call to go
  on.)
\<close>

datatype fault = Assert_failed | Divide_error | Null_deref

section \<open>The object directory and the device\<close>

text \<open>
  The module calls into the object directory (\<^verbatim>\<open>pmd_*\<close>) and the device layer
  (\<^verbatim>\<open>pd_dev_flush\<close>), which are not part of \<^verbatim>\<open>mblock.c\<close>. The state records
  every such call, in order, next to the memory holding the layouts.
\<close>

datatype pmd_call =
    Pmd_obj_alloc obj_type_omf pmd_obj_capacity mp_media_classp
  | Pmd_obj_realloc u64 pmd_obj_capacity mp_media_classp
  | Pmd_obj_find_get u64 int
  | Pmd_obj_put ptr
  | Pmd_obj_rdlock ptr
  | Pmd_obj_rdunlock ptr
  | Pmd_obj_wrlock ptr
  | Pmd_obj_wrunlock ptr
  | Pd_dev_flush mpool_dev_info
  | Pmd_obj_commit ptr
  | Pmd_obj_abort ptr
  | Pmd_obj_delete ptr
  | Pmd_layout_rw ptr "kvec list" c_int loff_t req_flags mpool_rw_op

record mpool_state =
  layouts :: "ptr \<Rightarrow> pmd_layout"
  calls :: "pmd_call list"

text \<open>
  What the collaborators answer is a parameter of every function of the module. The
  type of an identifier, the capacity of an object and its device are fixed per
  identifier and per object (the capacity is reserved at allocation and immutable, and
  so is the device association). The value a directory or device call returns may
  depend on the whole state, and so on every call made before it.
\<close>

record pmd_env =
  pmd_objid_type :: "u64 \<Rightarrow> obj_type_omf"
  pmd_layout_cap_get :: "ptr \<Rightarrow> u32"
  pmd_layout_pd_get :: "ptr \<Rightarrow> mpool_dev_info"
  pmd_obj_alloc_ret ::
    "mpool_state \<Rightarrow> obj_type_omf \<Rightarrow> pmd_obj_capacity \<Rightarrow> mp_media_classp \<Rightarrow> merr_t \<times> ptr"
  pmd_obj_realloc_ret ::
    "mpool_state \<Rightarrow> u64 \<Rightarrow> pmd_obj_capacity \<Rightarrow> mp_media_classp \<Rightarrow> merr_t \<times> ptr"
  pmd_obj_find_get_ret :: "mpool_state \<Rightarrow> u64 \<Rightarrow> int \<Rightarrow> ptr"
  pmd_obj_commit_ret :: "mpool_state \<Rightarrow> ptr \<Rightarrow> merr_t"
  pmd_obj_abort_ret :: "mpool_state \<Rightarrow> ptr \<Rightarrow> merr_t"
  pmd_obj_delete_ret :: "mpool_state \<Rightarrow> ptr \<Rightarrow> merr_t"
  pd_dev_flush_ret :: "mpool_state \<Rightarrow> mpool_dev_info \<Rightarrow> merr_t"
  pmd_layout_rw_ret ::
    "mpool_state \<Rightarrow> ptr \<Rightarrow> kvec list \<Rightarrow> c_int \<Rightarrow> loff_t \<Rightarrow> req_flags \<Rightarrow> mpool_rw_op \<Rightarrow> merr_t"

definition log_call :: "pmd_call \<Rightarrow> mpool_state \<Rightarrow> mpool_state" where
  "log_call c s = s\<lparr>calls := calls s @ [c]\<rparr>"

definition upd_layout :: "ptr \<Rightarrow> (pmd_layout \<Rightarrow> pmd_layout) \<Rightarrow> mpool_state \<Rightarrow> mpool_state" where
  "upd_layout p f s = s\<lparr>layouts := (layouts s)(p := f (layouts s p))\<rparr>"

text \<open>
  Modelled from the spec: \<^verbatim>\<open>pmd_obj_alloc\<close>, the directory's
  \<open>allocate(pool, type, capacity_request, media_class) -> Record | Error\<close>, is not in
  \<^verbatim>\<open>mblock.c\<close>. It returns an error and the address of the record, whose contents
  the directory has initialised in memory.
\<close>

definition pmd_obj_alloc ::
  "pmd_env \<Rightarrow> mpool_state \<Rightarrow> obj_type_omf \<Rightarrow> pmd_obj_capacity \<Rightarrow> mp_media_classp
    \<Rightarrow> merr_t \<times> ptr \<times> mpool_state" where
  "pmd_obj_alloc E s otype ocap mclassp =
     (fst (pmd_obj_alloc_ret E s otype ocap mclassp),
      snd (pmd_obj_alloc_ret E s otype ocap mclassp),
      log_call (Pmd_obj_alloc otype ocap mclassp) s)"

text \<open>
  Modelled from the spec: \<^verbatim>\<open>pmd_obj_realloc\<close>, the directory's
  \<open>reacquire_or_realloc(pool, id, capacity_request, media_class) -> Record | Error\<close>,
  is not in \<^verbatim>\<open>mblock.c\<close>.
\<close>

definition pmd_obj_realloc ::
  "pmd_env \<Rightarrow> mpool_state \<Rightarrow> u64 \<Rightarrow> pmd_obj_capacity \<Rightarrow> mp_media_classp
    \<Rightarrow> merr_t \<times> ptr \<times> mpool_state" where
  "pmd_obj_realloc E s objid ocap mclassp =
     (fst (pmd_obj_realloc_ret E s objid ocap mclassp),
      snd (pmd_obj_realloc_ret E s objid ocap mclassp),
      log_call (Pmd_obj_realloc objid ocap mclassp) s)"

text \<open>
  Modelled from the spec: \<^verbatim>\<open>pmd_obj_find_get\<close>, the directory's
  \<open>find(pool, id, selector)\<close>, is not in \<^verbatim>\<open>mblock.c\<close>. It returns the record or
  \<open>NULL\<close>, and takes a reference on the record it finds.
\<close>

definition pmd_obj_find_get :: "pmd_env \<Rightarrow> mpool_state \<Rightarrow> u64 \<Rightarrow> int \<Rightarrow> ptr \<times> mpool_state" where
  "pmd_obj_find_get E s objid which =
     (let layout = pmd_obj_find_get_ret E s objid which;
          s1 = log_call (Pmd_obj_find_get objid which) s
      in if layout = NULL then (NULL, s1)
         else (layout, upd_layout layout (\<lambda>l. l\<lparr>eld_ref := eld_ref l + 1\<rparr>) s1))"

text \<open>
  Modelled from the spec: \<^verbatim>\<open>pmd_obj_put\<close>, the directory's
  \<open>release(pool, record)\<close>, is not in \<^verbatim>\<open>mblock.c\<close>. It drops one reference.
\<close>

definition pmd_obj_put :: "mpool_state \<Rightarrow> ptr \<Rightarrow> mpool_state" where
  "pmd_obj_put s layout =
     upd_layout layout (\<lambda>l. l\<lparr>eld_ref := eld_ref l - 1\<rparr>) (log_call (Pmd_obj_put layout) s)"

text \<open>The reader/writer lock of a record: in a sequential run only the call is recorded.\<close>

definition pmd_obj_rdlock :: "mpool_state \<Rightarrow> ptr \<Rightarrow> mpool_state" where
  "pmd_obj_rdlock s layout = log_call (Pmd_obj_rdlock layout) s"

definition pmd_obj_rdunlock :: "mpool_state \<Rightarrow> ptr \<Rightarrow> mpool_state" where
  "pmd_obj_rdunlock s layout = log_call (Pmd_obj_rdunlock layout) s"

definition pmd_obj_wrlock :: "mpool_state \<Rightarrow> ptr \<Rightarrow> mpool_state" where
  "pmd_obj_wrlock s layout = log_call (Pmd_obj_wrlock layout) s"

definition pmd_obj_wrunlock :: "mpool_state \<Rightarrow> ptr \<Rightarrow> mpool_state" where
  "pmd_obj_wrunlock s layout = log_call (Pmd_obj_wrunlock layout) s"

text \<open>
  Modelled from the spec: \<^verbatim>\<open>pd_dev_flush\<close>, \<open>device_flush(device) -> Ok | Error\<close>,
  is not in \<^verbatim>\<open>mblock.c\<close>.
\<close>

definition pd_dev_flush :: "pmd_env \<Rightarrow> mpool_state \<Rightarrow> mpool_dev_info \<Rightarrow> merr_t \<times> mpool_state" where
  "pd_dev_flush E s pd = (pd_dev_flush_ret E s pd, log_call (Pd_dev_flush pd) s)"

text \<open>
  Modelled from the spec: \<^verbatim>\<open>pmd_obj_commit\<close>, the directory's
  \<open>commit(pool, record) -> Ok | Error{busy-aborting, ...}\<close>, is not in
  \<^verbatim>\<open>mblock.c\<close>. On success it flips the committed flag of the record; on failure
  (busy when an abort is racing, or any other directory error) the record is as before.
\<close>

definition pmd_obj_commit :: "pmd_env \<Rightarrow> mpool_state \<Rightarrow> ptr \<Rightarrow> merr_t \<times> mpool_state" where
  "pmd_obj_commit E s layout =
     (let err = pmd_obj_commit_ret E s layout;
          s1 = log_call (Pmd_obj_commit layout) s
      in if err \<noteq> 0 then (err, s1)
         else (0, upd_layout layout (\<lambda>l. l\<lparr>eld_state := eld_state l OR PMD_LYT_COMMITTED\<rparr>) s1))"

text \<open>
  Modelled from the spec: \<^verbatim>\<open>pmd_obj_abort\<close> and \<^verbatim>\<open>pmd_obj_delete\<close>,
  the directory's \<open>abort(pool, record) -> Ok | Error\<close> and
  \<open>delete(pool, record) -> Ok | Error\<close>, are not in \<^verbatim>\<open>mblock.c\<close>. Reclaiming the
  record is the directory's business: here the call is recorded and memory stays as it
  is, so a handle must not be used after a successful abort or delete.
\<close>

definition pmd_obj_abort :: "pmd_env \<Rightarrow> mpool_state \<Rightarrow> ptr \<Rightarrow> merr_t \<times> mpool_state" where
  "pmd_obj_abort E s layout = (pmd_obj_abort_ret E s layout, log_call (Pmd_obj_abort layout) s)"

definition pmd_obj_delete :: "pmd_env \<Rightarrow> mpool_state \<Rightarrow> ptr \<Rightarrow> merr_t \<times> mpool_state" where
  "pmd_obj_delete E s layout = (pmd_obj_delete_ret E s layout, log_call (Pmd_obj_delete layout) s)"

text \<open>
  Modelled from the spec: \<^verbatim>\<open>pmd_layout_rw\<close>, the directory's
  \<open>raw_transfer(pool, record, buffers, offset, flags, direction) -> Ok | Error\<close>, is
  not in \<^verbatim>\<open>mblock.c\<close>. It moves bytes between the buffers and the media and leaves
  the record alone.
\<close>

definition pmd_layout_rw ::
  "pmd_env \<Rightarrow> mpool_state \<Rightarrow> ptr \<Rightarrow> kvec list \<Rightarrow> c_int \<Rightarrow> loff_t \<Rightarrow> req_flags \<Rightarrow> mpool_rw_op
    \<Rightarrow> merr_t \<times> mpool_state" where
  "pmd_layout_rw E s layout iov iovcnt boff flags rw =
     (pmd_layout_rw_ret E s layout iov iovcnt boff flags rw,
      log_call (Pmd_layout_rw layout iov iovcnt boff flags rw) s)"

section \<open>The module\<close>

text \<open>
  The functions below follow \<^verbatim>\<open>mblock.c\<close> in its order. The pool descriptor
  \<^verbatim>\<open>mp\<close> is a parameter only where the code tests it (\<^verbatim>\<open>mblock_alloc_cmn\<close>,
  \<^verbatim>\<open>mblock_read\<close>); elsewhere it is handed to the collaborators and to the log
  messages, which are not modelled (nor is the diagnostic \<^verbatim>\<open>WARN_ONCE\<close> of
  \<^verbatim>\<open>mblock2layout\<close>, which changes no result). An output parameter
  (\<^verbatim>\<open>*mbh\<close>, \<^verbatim>\<open>*prop\<close>) is passed in with its old value and returned; a
  pointer to a property structure that may be null is an option.
\<close>

definition mblock_objid :: "pmd_env \<Rightarrow> u64 \<Rightarrow> bool" where
  "mblock_objid E objid \<longleftrightarrow> objid \<noteq> 0 \<and> pmd_objid_type E objid = OMF_OBJ_MBLOCK"

definition mblock2layout :: "pmd_env \<Rightarrow> mpool_state \<Rightarrow> ptr \<Rightarrow> ptr" where
  "mblock2layout E s mbh =
     (let layout = mbh
      in if layout = NULL then NULL
         else if mblock_objid E (eld_objid (layouts s layout)) then layout else NULL)"

definition mblock_optimal_iosz_get :: "pmd_env \<Rightarrow> ptr \<Rightarrow> u32" where
  "mblock_optimal_iosz_get E layout = pdi_optiosz (pmd_layout_pd_get E layout)"

definition layout2mblock :: "ptr \<Rightarrow> ptr" where
  "layout2mblock layout = layout"

definition mblock_getprops_cmn ::
  "pmd_env \<Rightarrow> mpool_state \<Rightarrow> ptr \<Rightarrow> mblock_props option \<Rightarrow> fault + mblock_props" where
  "mblock_getprops_cmn E s layout prop =
     (if layout = NULL then Inl Assert_failed
      else case prop of
        None \<Rightarrow> Inl Assert_failed
      | Some p \<Rightarrow>
          let pd = pmd_layout_pd_get E layout
          in Inr (p\<lparr>mpr_objid := eld_objid (layouts s layout),
                    mpr_alloc_cap := pmd_layout_cap_get E layout,
                    mpr_write_len := eld_mblen (layouts s layout),
                    mpr_optimal_wrsz := mblock_optimal_iosz_get E layout,
                    mpr_mclassp := pdi_mclass pd,
                    mpr_iscommitted := eld_state (layouts s layout) AND PMD_LYT_COMMITTED\<rparr>))"

definition mblock_alloc_cmn ::
  "pmd_env \<Rightarrow> mpool_state \<Rightarrow> mpool_descriptor option \<Rightarrow> u64 \<Rightarrow> mp_media_classp \<Rightarrow> bool
    \<Rightarrow> mblock_props option \<Rightarrow> ptr
    \<Rightarrow> (fault + merr_t) \<times> ptr \<times> mblock_props option \<times> mpool_state" where
  "mblock_alloc_cmn E s mp objid mclassp spare prop mbh =
     (if mp = None then (Inr (merr EINVAL), mbh, prop, s)
      else
        let ocap = \<lparr>moc_captgt = 0, moc_spare = spare\<rparr>;
            r = (if objid = 0 then pmd_obj_alloc E s OMF_OBJ_MBLOCK ocap mclassp
                 else pmd_obj_realloc E s objid ocap mclassp);
            err = fst r; layout = fst (snd r); s1 = snd (snd r)
        in if err \<noteq> 0 then (Inr err, NULL, prop, s1)
           else if layout = NULL then (Inr (merr EBUG), NULL, prop, s1)
           else case prop of
             None \<Rightarrow> (Inr 0, layout2mblock layout, prop, s1)
           | Some p \<Rightarrow>
               (case mblock_getprops_cmn E (pmd_obj_rdlock s1 layout) layout prop of
                  Inl f \<Rightarrow> (Inl f, NULL, prop, pmd_obj_rdlock s1 layout)
                | Inr p' \<Rightarrow>
                    (Inr 0, layout2mblock layout, Some p',
                     pmd_obj_rdunlock (pmd_obj_rdlock s1 layout) layout)))"

definition mblock_alloc ::
  "pmd_env \<Rightarrow> mpool_state \<Rightarrow> mpool_descriptor option \<Rightarrow> mp_media_classp \<Rightarrow> bool \<Rightarrow> ptr
    \<Rightarrow> mblock_props option
    \<Rightarrow> (fault + merr_t) \<times> ptr \<times> mblock_props option \<times> mpool_state" where
  "mblock_alloc E s mp mclassp spare mbh prop = mblock_alloc_cmn E s mp 0 mclassp spare prop mbh"

definition mblock_realloc ::
  "pmd_env \<Rightarrow> mpool_state \<Rightarrow> mpool_descriptor option \<Rightarrow> u64 \<Rightarrow> mp_media_classp \<Rightarrow> bool \<Rightarrow> ptr
    \<Rightarrow> mblock_props option
    \<Rightarrow> (fault + merr_t) \<times> ptr \<times> mblock_props option \<times> mpool_state" where
  "mblock_realloc E s mp objid mclassp spare mbh prop =
     (if \<not> mblock_objid E objid then (Inr (merr EINVAL), mbh, prop, s)
      else mblock_alloc_cmn E s mp objid mclassp spare prop mbh)"

definition mblock_find_get ::
  "pmd_env \<Rightarrow> mpool_state \<Rightarrow> u64 \<Rightarrow> int \<Rightarrow> mblock_props option \<Rightarrow> ptr
    \<Rightarrow> (fault + merr_t) \<times> ptr \<times> mblock_props option \<times> mpool_state" where
  "mblock_find_get E s objid which prop mbh =
     (if \<not> mblock_objid E objid then (Inr (merr EINVAL), NULL, prop, s)
      else
        let r = pmd_obj_find_get E s objid which;
            layout = fst r; s1 = snd r
        in if layout = NULL then (Inr (merr ENOENT), NULL, prop, s1)
           else case prop of
             None \<Rightarrow> (Inr 0, layout2mblock layout, prop, s1)
           | Some p \<Rightarrow>
               (case mblock_getprops_cmn E (pmd_obj_rdlock s1 layout) layout prop of
                  Inl f \<Rightarrow> (Inl f, NULL, prop, pmd_obj_rdlock s1 layout)
                | Inr p' \<Rightarrow>
                    (Inr 0, layout2mblock layout, Some p',
                     pmd_obj_rdunlock (pmd_obj_rdlock s1 layout) layout)))"

definition mblock_put :: "pmd_env \<Rightarrow> mpool_state \<Rightarrow> ptr \<Rightarrow> mpool_state" where
  "mblock_put E s mbh =
     (let layout = mblock2layout E s mbh
      in if layout \<noteq> NULL then pmd_obj_put s layout else s)"

definition mblock_commit :: "pmd_env \<Rightarrow> mpool_state \<Rightarrow> ptr \<Rightarrow> (fault + merr_t) \<times> mpool_state" where
  "mblock_commit E s mbh =
     (let layout = mblock2layout E s mbh
      in if layout = NULL then (Inr (merr EINVAL), s)
         else
           let pd = pmd_layout_pd_get E layout;
               f = (if \<not> pdi_fua pd then pd_dev_flush E s pd else (0, s))
           in if fst f \<noteq> 0 then (Inr (fst f), snd f)
              else
                let c = pmd_obj_commit E (snd f) layout
                in if fst c \<noteq> 0 then (Inr (fst c), snd c) else (Inr 0, snd c))"

definition mblock_abort :: "pmd_env \<Rightarrow> mpool_state \<Rightarrow> ptr \<Rightarrow> (fault + merr_t) \<times> mpool_state" where
  "mblock_abort E s mbh =
     (let layout = mblock2layout E s mbh
      in if layout = NULL then (Inr (merr EINVAL), s)
         else
           let a = pmd_obj_abort E s layout
           in if fst a \<noteq> 0 then (Inr (fst a), snd a) else (Inr 0, snd a))"

definition mblock_delete :: "pmd_env \<Rightarrow> mpool_state \<Rightarrow> ptr \<Rightarrow> (fault + merr_t) \<times> mpool_state" where
  "mblock_delete E s mbh =
     (let layout = mblock2layout E s mbh
      in if layout = NULL then (Inr (merr EINVAL), s)
         else
           let d = pmd_obj_delete E s layout
           in (Inr (fst d), snd d))"

text \<open>
  \<^verbatim>\<open>mblock_rw_argcheck\<close>. In the read branch \<^verbatim>\<open>mblock_cap <= boff\<close> compares
  a \<^verbatim>\<open>u32\<close> with a signed \<^verbatim>\<open>loff_t\<close>, so it is a signed comparison;
  \<^verbatim>\<open>boff + len\<close> and \<^verbatim>\<open>len + boff\<close> are unsigned 64-bit sums, which wrap;
  \<^verbatim>\<open>boff % opt_iosz\<close> is an unsigned remainder and traps when the divisor is 0.
\<close>

definition mblock_rw_argcheck ::
  "pmd_env \<Rightarrow> mpool_state \<Rightarrow> ptr \<Rightarrow> loff_t \<Rightarrow> mpool_rw_op \<Rightarrow> size_t \<Rightarrow> fault + merr_t" where
  "mblock_rw_argcheck E s layout boff rw len =
     (let mblock_cap = pmd_layout_cap_get E layout;
          opt_iosz = (ucast (mblock_optimal_iosz_get E layout) :: u64)
      in if rw = MPOOL_OP_READ then
           if \<not> PAGE_ALIGNED boff then Inr (merr EINVAL)
           else if (ucast mblock_cap :: loff_t) \<le>s boff then Inr (merr EINVAL)
           else if boff + len > ucast (eld_mblen (layouts s layout)) then Inr (merr EINVAL)
           else Inr 0
         else
           if boff \<noteq> ucast (eld_mblen (layouts s layout)) then Inr (merr EINVAL)
           else if opt_iosz = 0 then Inl Divide_error
           else if boff mod opt_iosz \<noteq> 0 then Inr (merr EINVAL)
           else if len + boff > ucast mblock_cap then Inr (merr EINVAL)
           else Inr 0)"

definition mblock_write ::
  "pmd_env \<Rightarrow> mpool_state \<Rightarrow> ptr \<Rightarrow> kvec list \<Rightarrow> c_int \<Rightarrow> size_t \<Rightarrow> (fault + merr_t) \<times> mpool_state" where
  "mblock_write E s mbh iov iovcnt len =
     (let layout = mblock2layout E s mbh
      in if layout = NULL then (Inr (merr EINVAL), s)
         else
           case mblock_rw_argcheck E s layout (ucast (eld_mblen (layouts s layout)))
                  MPOOL_OP_WRITE len of
             Inl f \<Rightarrow> (Inl f, s)
           | Inr err \<Rightarrow>
               if err \<noteq> 0 then (Inr err, s)
               else if len = 0 then (Inr 0, s)
               else
                 let boff = (ucast (eld_mblen (layouts s layout)) :: loff_t)
                 in if \<not> PAGE_ALIGNED len then (Inl Assert_failed, s)
                    else if (scast iovcnt :: u64) \<noteq> drop_bit PAGE_SHIFT len
                      then (Inl Assert_failed, s)
                    else if \<not> PAGE_ALIGNED boff then (Inl Assert_failed, s)
                    else
                      let s1 = pmd_obj_wrlock s layout;
                          state = eld_state (layouts s1 layout)
                      in if state AND PMD_LYT_COMMITTED = 0 then
                           let pd = pmd_layout_pd_get E layout;
                               flags = (if pdi_fua pd then REQ_FUA else REQ_NONE);
                               w = pmd_layout_rw E s1 layout iov iovcnt boff flags MPOOL_OP_WRITE;
                               s2 = (if fst w = 0
                                     then upd_layout layout
                                            (\<lambda>l. l\<lparr>eld_mblen := eld_mblen l + ucast len\<rparr>) (snd w)
                                     else snd w)
                           in (Inr (fst w), pmd_obj_wrunlock s2 layout)
                         else (Inr (merr EALREADY), pmd_obj_wrunlock s1 layout))"

definition mblock_read ::
  "pmd_env \<Rightarrow> mpool_state \<Rightarrow> mpool_descriptor option \<Rightarrow> ptr \<Rightarrow> kvec list \<Rightarrow> c_int \<Rightarrow> loff_t
    \<Rightarrow> size_t \<Rightarrow> (fault + merr_t) \<times> mpool_state" where
  "mblock_read E s mp mbh iov iovcnt boff len =
     (if mp = None then (Inl Assert_failed, s)
      else
        let layout = mblock2layout E s mbh
        in if layout = NULL then (Inr (merr EINVAL), s)
           else
             case mblock_rw_argcheck E s layout boff MPOOL_OP_READ len of
               Inl f \<Rightarrow> (Inl f, s)
             | Inr err \<Rightarrow>
                 if err \<noteq> 0 then (Inr err, s)
                 else if len = 0 then (Inr 0, s)
                 else if \<not> PAGE_ALIGNED len then (Inl Assert_failed, s)
                 else if \<not> PAGE_ALIGNED boff then (Inl Assert_failed, s)
                 else if (scast iovcnt :: u64) \<noteq> drop_bit PAGE_SHIFT len
                   then (Inl Assert_failed, s)
                 else
                   let s1 = pmd_obj_rdlock s layout;
                       state = eld_state (layouts s1 layout)
                   in if state AND PMD_LYT_COMMITTED \<noteq> 0 then
                        let r = pmd_layout_rw E s1 layout iov iovcnt boff REQ_NONE MPOOL_OP_READ
                        in (Inr (fst r), pmd_obj_rdunlock (snd r) layout)
                      else (Inr (merr EAGAIN), pmd_obj_rdunlock s1 layout))"

definition mblock_get_props ::
  "pmd_env \<Rightarrow> mpool_state \<Rightarrow> ptr \<Rightarrow> mblock_props option
    \<Rightarrow> (fault + merr_t) \<times> mblock_props option \<times> mpool_state" where
  "mblock_get_props E s mbh prop =
     (let layout = mblock2layout E s mbh
      in if layout = NULL then (Inr (merr EINVAL), prop, s)
         else
           case mblock_getprops_cmn E (pmd_obj_rdlock s layout) layout prop of
             Inl f \<Rightarrow> (Inl f, prop, pmd_obj_rdlock s layout)
           | Inr p' \<Rightarrow> (Inr 0, Some p', pmd_obj_rdunlock (pmd_obj_rdlock s layout) layout))"

definition mblock_get_props_ex ::
  "pmd_env \<Rightarrow> mpool_state \<Rightarrow> ptr \<Rightarrow> mblock_props_ex option
    \<Rightarrow> (fault + merr_t) \<times> mblock_props_ex option \<times> mpool_state" where
  "mblock_get_props_ex E s mbh prop =
     (let layout = mblock2layout E s mbh
      in if layout = NULL then (Inr (merr EINVAL), prop, s)
         else
           case prop of
             None \<Rightarrow> (Inl Null_deref, prop, pmd_obj_rdlock s layout)
           | Some px \<Rightarrow>
               let s1 = pmd_obj_rdlock s layout;
                   px1 = px\<lparr>mbx_zonecnt := ol_zcnt (eld_ld (layouts s1 layout))\<rparr>
               in (case mblock_getprops_cmn E s1 layout (Some (mbx_props px1)) of
                     Inl f \<Rightarrow> (Inl f, Some px1, s1)
                   | Inr p' \<Rightarrow>
                       (Inr 0, Some (px1\<lparr>mbx_props := p'\<rparr>), pmd_obj_rdunlock s1 layout)))"

section \<open>The entry points as one type of call\<close>

text \<open>
  To speak about every operation of the module and about sequences of operations, the
  exported functions are collected in one type; \<open>mblock_api\<close> is the state a call
  leaves behind and \<open>mblock_run\<close> runs a list of calls in order.
\<close>

datatype mblock_call =
    Mblock_alloc "mpool_descriptor option" mp_media_classp bool ptr "mblock_props option"
  | Mblock_realloc "mpool_descriptor option" u64 mp_media_classp bool ptr "mblock_props option"
  | Mblock_find_get u64 int "mblock_props option" ptr
  | Mblock_put ptr
  | Mblock_commit ptr
  | Mblock_abort ptr
  | Mblock_delete ptr
  | Mblock_write ptr "kvec list" c_int size_t
  | Mblock_read "mpool_descriptor option" ptr "kvec list" c_int loff_t size_t
  | Mblock_get_props ptr "mblock_props option"
  | Mblock_get_props_ex ptr "mblock_props_ex option"

fun mblock_api :: "pmd_env \<Rightarrow> mpool_state \<Rightarrow> mblock_call \<Rightarrow> mpool_state" where
  "mblock_api E s (Mblock_alloc mp mclassp spare mbh prop) =
     snd (snd (snd (mblock_alloc E s mp mclassp spare mbh prop)))"
| "mblock_api E s (Mblock_realloc mp objid mclassp spare mbh prop) =
     snd (snd (snd (mblock_realloc E s mp objid mclassp spare mbh prop)))"
| "mblock_api E s (Mblock_find_get objid which prop mbh) =
     snd (snd (snd (mblock_find_get E s objid which prop mbh)))"
| "mblock_api E s (Mblock_put mbh) = mblock_put E s mbh"
| "mblock_api E s (Mblock_commit mbh) = snd (mblock_commit E s mbh)"
| "mblock_api E s (Mblock_abort mbh) = snd (mblock_abort E s mbh)"
| "mblock_api E s (Mblock_delete mbh) = snd (mblock_delete E s mbh)"
| "mblock_api E s (Mblock_write mbh iov iovcnt len) = snd (mblock_write E s mbh iov iovcnt len)"
| "mblock_api E s (Mblock_read mp mbh iov iovcnt boff len) =
     snd (mblock_read E s mp mbh iov iovcnt boff len)"
| "mblock_api E s (Mblock_get_props mbh prop) = snd (snd (mblock_get_props E s mbh prop))"
| "mblock_api E s (Mblock_get_props_ex mbh prop) = snd (snd (mblock_get_props_ex E s mbh prop))"

fun is_write_call :: "mblock_call \<Rightarrow> bool" where
  "is_write_call (Mblock_write mbh iov iovcnt len) = True"
| "is_write_call c = False"

definition mblock_run :: "pmd_env \<Rightarrow> mpool_state \<Rightarrow> mblock_call list \<Rightarrow> mpool_state" where
  "mblock_run E s cs = foldl (mblock_api E) s cs"

section \<open>A small pool to run the module on\<close>

text \<open>
  One device with an optimal transfer size of 4096 bytes and no durable writes, objects
  of capacity 8192, identifiers whose type field (bits 8 to 11) is 1 for mblocks, and a
  directory whose calls all succeed. The record at address 1 is an mblock with
  identifier \<open>0x101\<close>; the record at address 2 belongs to an mlog.
\<close>

definition dev0 :: mpool_dev_info where
  "dev0 = \<lparr>pdi_optiosz = 4096, pdi_fua = False, pdi_mclass = 0\<rparr>"

definition env0 :: pmd_env where
  "env0 =
     \<lparr>pmd_objid_type = (\<lambda>objid. if objid AND 0xF00 = 0x100 then OMF_OBJ_MBLOCK else OMF_OBJ_MLOG),
      pmd_layout_cap_get = (\<lambda>layout. 8192),
      pmd_layout_pd_get = (\<lambda>layout. dev0),
      pmd_obj_alloc_ret = (\<lambda>s otype ocap mclassp. (0, 1)),
      pmd_obj_realloc_ret = (\<lambda>s objid ocap mclassp. (0, 1)),
      pmd_obj_find_get_ret = (\<lambda>s objid which. 1),
      pmd_obj_commit_ret = (\<lambda>s layout. 0),
      pmd_obj_abort_ret = (\<lambda>s layout. 0),
      pmd_obj_delete_ret = (\<lambda>s layout. 0),
      pd_dev_flush_ret = (\<lambda>s pd. 0),
      pmd_layout_rw_ret = (\<lambda>s layout iov iovcnt boff flags rw. 0)\<rparr>"

text \<open>The same pool on a device whose flush fails with \<open>EIO\<close> (5).\<close>

definition env_flush_fails :: pmd_env where
  "env_flush_fails = env0\<lparr>pd_dev_flush_ret := (\<lambda>s pd. 5)\<rparr>"

text \<open>The same pool on a device whose optimal transfer size is 8192 bytes.\<close>

definition env_opt8k :: pmd_env where
  "env_opt8k = env0\<lparr>pmd_layout_pd_get := (\<lambda>layout. dev0\<lparr>pdi_optiosz := 8192\<rparr>)\<rparr>"

text \<open>The same pool on a device that reports an optimal transfer size of 0.\<close>

definition env_opt0 :: pmd_env where
  "env_opt0 = env0\<lparr>pmd_layout_pd_get := (\<lambda>layout. dev0\<lparr>pdi_optiosz := 0\<rparr>)\<rparr>"

definition lyt0 :: pmd_layout where
  "lyt0 = \<lparr>eld_objid = 0, eld_mblen = 0, eld_state = 0, eld_ref = 0, eld_ld = \<lparr>ol_zcnt = 0\<rparr>\<rparr>"

definition st0 :: mpool_state where
  "st0 =
     \<lparr>layouts = (\<lambda>p. lyt0)
        (1 := lyt0\<lparr>eld_objid := 0x101, eld_ref := 2, eld_ld := \<lparr>ol_zcnt = 2\<rparr>\<rparr>,
         2 := lyt0\<lparr>eld_objid := 0x201, eld_ref := 2\<rparr>),
      calls = []\<rparr>"

text \<open>The mblock at address 1 after 4096 bytes were written, before any commit.\<close>

definition st_written :: mpool_state where
  "st_written =
     \<lparr>layouts = (\<lambda>p. lyt0)
        (1 := lyt0\<lparr>eld_objid := 0x101, eld_mblen := 4096, eld_ref := 2,
                  eld_ld := \<lparr>ol_zcnt = 2\<rparr>\<rparr>),
      calls = []\<rparr>"

text \<open>The mblock at address 1 after 4096 bytes were written and committed.\<close>

definition st_committed :: mpool_state where
  "st_committed =
     \<lparr>layouts = (\<lambda>p. lyt0)
        (1 := lyt0\<lparr>eld_objid := 0x101, eld_mblen := 4096, eld_state := 1, eld_ref := 2,
                  eld_ld := \<lparr>ol_zcnt = 2\<rparr>\<rparr>),
      calls = []\<rparr>"

definition mp0 :: mpool_descriptor where
  "mp0 = \<lparr>pds_name = ''mp0''\<rparr>"

definition props0 :: mblock_props where
  "props0 = \<lparr>mpr_objid = 0, mpr_alloc_cap = 0, mpr_write_len = 0, mpr_optimal_wrsz = 0,
             mpr_mclassp = 0, mpr_iscommitted = 0\<rparr>"

section \<open>Unfolding rules\<close>

lemmas errno_defs = merr_def ENOENT_def EAGAIN_def EINVAL_def EALREADY_def EBUG_def

lemmas page_defs = PAGE_SHIFT_def PAGE_SIZE_def PAGE_ALIGNED_def

lemmas dir_defs = log_call_def upd_layout_def pmd_obj_alloc_def pmd_obj_realloc_def
  pmd_obj_find_get_def pmd_obj_put_def pmd_obj_rdlock_def pmd_obj_rdunlock_def
  pmd_obj_wrlock_def pmd_obj_wrunlock_def pd_dev_flush_def pmd_obj_commit_def
  pmd_obj_abort_def pmd_obj_delete_def pmd_layout_rw_def

lemmas pool0_defs = dev0_def env0_def env_flush_fails_def env_opt8k_def env_opt0_def
  lyt0_def st0_def st_written_def st_committed_def mp0_def props0_def

lemmas handle_defs = mblock2layout_def mblock_objid_def layout2mblock_def
  mblock_optimal_iosz_get_def

lemma resolves_iff:
  "mblock2layout E s mbh \<noteq> NULL \<longleftrightarrow> mbh \<noteq> NULL \<and> mblock_objid E (eld_objid (layouts s mbh))"
  by (simp add: mblock2layout_def)

lemma resolves_eq:
  "mblock2layout E s mbh \<noteq> NULL \<Longrightarrow> mblock2layout E s mbh = mbh"
  by (simp add: mblock2layout_def split: if_splits)

section \<open>Identifier type safety\<close>

text \<open>
  C8. \<open>mblock_objid\<close> holds exactly for a non-zero identifier whose type tag is mblock.
  For an identifier that fails it, \<open>mblock_realloc\<close> and \<open>mblock_find_get\<close> both
  return \<open>EINVAL\<close> and leave the state as it was: no call reaches the directory, so
  the identifier is resolved to no object. \<open>mblock_find_get\<close> hands back a null
  handle; \<open>mblock_realloc\<close> returns before it stores to the caller's handle.
\<close>

theorem mblock_objid_type_safety:
  "(mblock_objid E objid \<longleftrightarrow> objid \<noteq> 0 \<and> pmd_objid_type E objid = OMF_OBJ_MBLOCK) \<and>
   (\<not> mblock_objid E objid \<longrightarrow>
      mblock_realloc E s mp objid mclassp spare mbh prop = (Inr (merr EINVAL), mbh, prop, s) \<and>
      mblock_find_get E s objid which prop mbh = (Inr (merr EINVAL), NULL, prop, s))"
  by (simp add: mblock_objid_def mblock_realloc_def mblock_find_get_def)

theorem mblock_objid_type_safety_witness:
  "\<not> mblock_objid env0 0x201 \<and>
   mblock_realloc env0 st0 (Some mp0) 0x201 0 False 7 None = (Inr 22, 7, None, st0) \<and>
   mblock_find_get env0 st0 0x201 0 None 7 = (Inr 22, NULL, None, st0) \<and>
   mblock_objid env0 0x101 \<and> \<not> mblock_objid env0 0"
proof -
  have bad: "\<not> mblock_objid env0 0x201"
    by (simp add: mblock_objid_def env0_def)
  have good: "mblock_objid env0 0x101" "\<not> mblock_objid env0 0"
    by (simp_all add: mblock_objid_def env0_def)
  from bad mblock_objid_type_safety [of env0 "0x201" st0 "Some mp0" 0 False 7 None 0]
  show ?thesis using good by (simp add: errno_defs)
qed

section \<open>Releasing a handle\<close>

text \<open>
  C10. \<open>mblock_put\<close> on a null handle, or on a handle whose record carries an
  identifier that is not an mblock identifier, does nothing: the state is the one it was
  called in, so the directory's release primitive was not called and no reference count
  moved. The function returns no value, hence no error either.
\<close>

theorem mblock_put_invalid_noop:
  assumes "mbh = NULL \<or> \<not> mblock_objid E (eld_objid (layouts s mbh))"
  shows "mblock_put E s mbh = s"
  using assms by (auto simp add: mblock_put_def mblock2layout_def)

theorem mblock_put_invalid_noop_witness:
  "mblock_put env0 st0 NULL = st0 \<and> mblock_put env0 st0 2 = st0 \<and>
   eld_ref (layouts (mblock_put env0 st0 1) 1) = 1 \<and>
   calls (mblock_put env0 st0 1) = [Pmd_obj_put 1]"
proof -
  have foreign: "\<not> mblock_objid env0 (eld_objid (layouts st0 2))"
    by (simp add: mblock_objid_def env0_def st0_def lyt0_def)
  have valid: "eld_ref (layouts (mblock_put env0 st0 1) 1) = 1"
    "calls (mblock_put env0 st0 1) = [Pmd_obj_put 1]"
    by (simp_all add: mblock_put_def handle_defs dir_defs pool0_defs)
  show ?thesis
    using mblock_put_invalid_noop [of NULL env0 st0]
      mblock_put_invalid_noop [of 2 env0 st0] foreign valid
    by simp
qed

section \<open>Commit\<close>

text \<open>
  C7. On a valid handle whose device has no durable writes (\<open>pdi_fua\<close> is false),
  \<open>mblock_commit\<close> first flushes the device. When the flush fails, the call returns the
  flush's error and the state has gained the flush call and nothing else: the directory's
  commit was not called and no record changed, so the committed flag is not set. When the
  flush succeeds, the directory's commit is the call that follows it.
\<close>

theorem mblock_commit_flush_first:
  assumes res: "mblock2layout E s mbh \<noteq> NULL"
      and nofua: "\<not> pdi_fua (pmd_layout_pd_get E mbh)"
  shows "(pd_dev_flush_ret E s (pmd_layout_pd_get E mbh) \<noteq> 0 \<longrightarrow>
            mblock_commit E s mbh =
              (Inr (pd_dev_flush_ret E s (pmd_layout_pd_get E mbh)),
               s\<lparr>calls := calls s @ [Pd_dev_flush (pmd_layout_pd_get E mbh)]\<rparr>)) \<and>
         (pd_dev_flush_ret E s (pmd_layout_pd_get E mbh) = 0 \<longrightarrow>
            calls (snd (mblock_commit E s mbh)) =
              calls s @ [Pd_dev_flush (pmd_layout_pd_get E mbh), Pmd_obj_commit mbh])"
  using nofua resolves_eq [OF res] res
  by (simp add: mblock_commit_def dir_defs Let_def)

theorem mblock_commit_flush_first_witness:
  "mblock2layout env_flush_fails st0 1 \<noteq> NULL \<and>
   \<not> pdi_fua (pmd_layout_pd_get env_flush_fails 1) \<and>
   mblock_commit env_flush_fails st0 1 = (Inr 5, st0\<lparr>calls := [Pd_dev_flush dev0]\<rparr>) \<and>
   eld_state (layouts (snd (mblock_commit env_flush_fails st0 1)) 1) = 0 \<and>
   calls (snd (mblock_commit env0 st0 1)) = [Pd_dev_flush dev0, Pmd_obj_commit 1] \<and>
   eld_state (layouts (snd (mblock_commit env0 st0 1)) 1) = 1"
proof -
  have res: "mblock2layout env_flush_fails st0 1 \<noteq> NULL" "mblock2layout env0 st0 1 \<noteq> NULL"
    by (simp_all add: handle_defs pool0_defs)
  have nofua: "\<not> pdi_fua (pmd_layout_pd_get env_flush_fails 1)"
    "\<not> pdi_fua (pmd_layout_pd_get env0 1)"
    by (simp_all add: pool0_defs)
  have st: "eld_state (layouts (snd (mblock_commit env0 st0 1)) 1) = 1"
    by (simp add: mblock_commit_def handle_defs dir_defs pool0_defs PMD_LYT_COMMITTED_def)
  from mblock_commit_flush_first [OF res(1) nofua(1)]
    mblock_commit_flush_first [OF res(2) nofua(2)]
  show ?thesis using res nofua st by (simp add: pool0_defs)
qed

section \<open>Validation comes before the lock and the transfer\<close>

text \<open>
  C9. When \<open>mblock_rw_argcheck\<close> rejects the arguments of a write or of a read, the
  call returns that error in the state it was called in: the list of calls into the
  directory is the same, so no lock was taken and no transfer attempted, and memory is
  the same, so \<open>eld_mblen\<close> and every other field of the record are untouched.
  (\<open>mblock_read\<close> asserts its pool descriptor before anything else.)
\<close>

theorem rw_validation_fails_fast:
  assumes res: "mblock2layout E s mbh \<noteq> NULL" and err: "err \<noteq> 0"
  shows "(mblock_rw_argcheck E s mbh (ucast (eld_mblen (layouts s mbh))) MPOOL_OP_WRITE len
            = Inr err \<longrightarrow>
            mblock_write E s mbh iov iovcnt len = (Inr err, s)) \<and>
         (mblock_rw_argcheck E s mbh boff MPOOL_OP_READ len' = Inr err \<longrightarrow>
            snd (mblock_read E s mp mbh iov' iovcnt' boff len') = s \<and>
            (mp \<noteq> None \<longrightarrow> mblock_read E s mp mbh iov' iovcnt' boff len' = (Inr err, s)))"
  using err resolves_eq [OF res] res
  by (simp add: mblock_write_def mblock_read_def Let_def)

theorem rw_validation_fails_fast_witness:
  "mblock2layout env0 st0 1 \<noteq> NULL \<and>
   mblock_write env0 st0 1 [] 3 12288 = (Inr 22, st0) \<and>
   mblock_read env0 st0 (Some mp0) 1 [] 1 0 4096 = (Inr 22, st0)"
proof -
  have res: "mblock2layout env0 st0 1 \<noteq> NULL"
    by (simp add: handle_defs pool0_defs)
  have w: "mblock_rw_argcheck env0 st0 1 (ucast (eld_mblen (layouts st0 1))) MPOOL_OP_WRITE 12288
             = Inr 22"
    by (simp add: mblock_rw_argcheck_def handle_defs pool0_defs errno_defs)
  have r: "mblock_rw_argcheck env0 st0 1 0 MPOOL_OP_READ 4096 = Inr 22"
    by (simp add: mblock_rw_argcheck_def handle_defs pool0_defs errno_defs page_defs word_sle_eq)
  from rw_validation_fails_fast [OF res, of 22 12288 "[]" 3 0 4096 "Some mp0" "[]" 1] w r res
  show ?thesis by simp
qed

section \<open>Word arithmetic of the transfer path\<close>

text \<open>
  The assertion \<^verbatim>\<open>iovcnt == (len >> PAGE_SHIFT)\<close> compares an \<^verbatim>\<open>int\<close> with a
  \<^verbatim>\<open>size_t\<close>: the \<^verbatim>\<open>int\<close> is sign-extended to 64 bits. A length that
  passes it is below \<open>2 ^ 43\<close>, and then the sums of the capacity check and of
  \<^verbatim>\<open>eld_mblen += len\<close> do not wrap.
\<close>

lemma uint_scast_c_int: "uint (scast (n :: c_int) :: u64) = sint n mod 2 ^ 64"
  by (subst scast_eq) (simp only: uint_word_of_int, simp)

lemma unat_drop_bit_page: "unat (drop_bit PAGE_SHIFT (len :: u64)) = unat len div 2 ^ 12"
  by (subst unat_drop_bit_eq) (simp only: PAGE_SHIFT_def drop_bit_eq_div)

lemma iovcnt_bounds_len:
  assumes "(scast (iovcnt :: c_int) :: u64) = drop_bit PAGE_SHIFT (len :: size_t)"
  shows "unat len < 2 ^ 43"
proof -
  have "uint (drop_bit PAGE_SHIFT len) = int (unat len div 2 ^ 12)"
    by (subst uint_nat) (simp only: unat_drop_bit_page)
  with assms have eq: "sint iovcnt mod 2 ^ 64 = int (unat len div 2 ^ 12)"
    using uint_scast_c_int [of iovcnt] by simp
  have lenb: "unat len < 2 ^ 64" using unsigned_less [of len, where 'a = nat] by simp
  have lo: "- (2 ^ 31) \<le> sint iovcnt" using sint_ge [of iovcnt] by simp
  have hi: "sint iovcnt < 2 ^ 31" using sint_lt [of iovcnt] by simp
  show ?thesis
  proof (cases "sint iovcnt < 0")
    case True
    have "(sint iovcnt + 2 ^ 64) mod 2 ^ 64 = sint iovcnt + 2 ^ 64"
      using True lo by (intro mod_pos_pos_trivial) simp_all
    then have "sint iovcnt mod 2 ^ 64 = sint iovcnt + 2 ^ 64"
      by simp
    with eq lo lenb show ?thesis by simp
  next
    case False
    then have "sint iovcnt mod 2 ^ 64 = sint iovcnt"
      using hi by (intro mod_pos_pos_trivial) simp_all
    with eq hi show ?thesis by simp
  qed
qed

lemma unat_u32_bound: "unat (x :: u32) < 2 ^ 32"
  using unsigned_less [of x, where 'a = nat] by simp

lemma unat_ucast_u32: "unat (ucast (x :: u32) :: u64) = unat x"
proof -
  have "unat x < 2 ^ 64"
    using unat_u32_bound [of x] by simp
  then show ?thesis
    by (simp add: unsigned_ucast_eq take_bit_nat_eq_self)
qed

lemma write_no_wrap:
  assumes len: "unat (len :: size_t) < 2 ^ 43"
      and fits: "\<not> (ucast (cap :: u32) :: u64) < len + ucast (m :: u32)"
  shows "unat (m + ucast len) = unat m + unat len"
proof -
  have small: "unat len + unat (ucast m :: u64) < 2 ^ 64"
    using len unat_u32_bound [of m] by (simp add: unat_ucast_u32)
  then have sum: "unat (len + ucast m) = unat len + unat m"
    using unat_add_lem [of len "ucast m :: u64"] by (simp add: unat_ucast_u32)
  from fits have "unat (len + ucast m) \<le> unat (ucast cap :: u64)"
    by (simp add: word_less_nat_alt)
  with sum have le: "unat len + unat m \<le> unat cap"
    by (simp add: unat_ucast_u32)
  with unat_u32_bound [of cap] have lt: "unat len + unat m < 2 ^ 32" by simp
  then have "unat (ucast len :: u32) = unat len"
    by (simp add: unsigned_ucast_eq take_bit_nat_eq_self)
  with lt show ?thesis
    using unat_add_lem [of m "ucast len :: u32"] by simp
qed

section \<open>Writing\<close>

lemma mblock_write_success:
  assumes res: "mblock2layout E s mbh \<noteq> NULL"
      and len: "len \<noteq> 0"
      and ok: "mblock_write E s mbh iov iovcnt len = (Inr 0, s')"
  shows "mblock_rw_argcheck E s mbh (ucast (eld_mblen (layouts s mbh))) MPOOL_OP_WRITE len = Inr 0"
    and "(scast iovcnt :: u64) = drop_bit PAGE_SHIFT len"
    and "eld_state (layouts s mbh) AND PMD_LYT_COMMITTED = 0"
    and "s' = s\<lparr>layouts := (layouts s)
                  (mbh := (layouts s mbh)\<lparr>eld_mblen := eld_mblen (layouts s mbh) + ucast len\<rparr>),
                calls := calls s @
                  [Pmd_obj_wrlock mbh,
                   Pmd_layout_rw mbh iov iovcnt (ucast (eld_mblen (layouts s mbh)))
                     (if pdi_fua (pmd_layout_pd_get E mbh) then REQ_FUA else REQ_NONE)
                     MPOOL_OP_WRITE,
                   Pmd_obj_wrunlock mbh]\<rparr>"
  using ok len resolves_eq [OF res] res
  by (auto simp add: mblock_write_def Let_def dir_defs errno_defs split: sum.splits if_splits)

lemma write_argcheck_ok:
  assumes "mblock_rw_argcheck E s layout boff MPOOL_OP_WRITE len = Inr 0"
  shows "\<not> (ucast (pmd_layout_cap_get E layout) :: u64) < len + boff"
    and "boff = ucast (eld_mblen (layouts s layout))"
  using assms
  by (auto simp add: mblock_rw_argcheck_def Let_def errno_defs split: if_splits)

text \<open>What the calls other than \<open>mblock_write\<close> do to \<open>eld_mblen\<close>: nothing.\<close>

lemma alloc_cmn_mblen:
  "eld_mblen (layouts (snd (snd (snd (mblock_alloc_cmn E s mp objid mclassp spare prop mbh)))) p)
     = eld_mblen (layouts s p)"
  by (simp add: mblock_alloc_cmn_def Let_def dir_defs split: option.splits sum.splits)

lemma find_get_mblen:
  "eld_mblen (layouts (snd (snd (snd (mblock_find_get E s objid which prop mbh)))) p)
     = eld_mblen (layouts s p)"
  by (simp add: mblock_find_get_def Let_def dir_defs split: option.splits sum.splits)

lemma put_mblen:
  "eld_mblen (layouts (mblock_put E s mbh) p) = eld_mblen (layouts s p)"
  by (simp add: mblock_put_def Let_def dir_defs)

lemma commit_mblen:
  "eld_mblen (layouts (snd (mblock_commit E s mbh)) p) = eld_mblen (layouts s p)"
  by (simp add: mblock_commit_def Let_def dir_defs)

lemma abort_delete_mblen:
  "eld_mblen (layouts (snd (mblock_abort E s mbh)) p) = eld_mblen (layouts s p)"
  "eld_mblen (layouts (snd (mblock_delete E s mbh)) p) = eld_mblen (layouts s p)"
  by (simp_all add: mblock_abort_def mblock_delete_def Let_def dir_defs)

lemma read_layouts:
  "layouts (snd (mblock_read E s mp mbh iov iovcnt boff len)) = layouts s"
  by (simp add: mblock_read_def Let_def dir_defs split: sum.splits)

lemma get_props_layouts:
  "layouts (snd (snd (mblock_get_props E s mbh prop))) = layouts s"
  "layouts (snd (snd (mblock_get_props_ex E s mbh propx))) = layouts s"
  by (simp_all add: mblock_get_props_def mblock_get_props_ex_def Let_def dir_defs
      split: option.splits sum.splits)

lemma api_keeps_mblen:
  "\<not> is_write_call c \<Longrightarrow> eld_mblen (layouts (mblock_api E s c) p) = eld_mblen (layouts s p)"
  by (cases c)
    (simp_all add: mblock_alloc_def mblock_realloc_def alloc_cmn_mblen find_get_mblen put_mblen
      commit_mblen abort_delete_mblen read_layouts get_props_layouts)

text \<open>
  C1. On a handle that resolves to an mblock that is not committed, a write of
  \<open>len > 0\<close> that returns success leaves \<open>eld_mblen\<close> larger by exactly \<open>len\<close>
  (as numbers: nothing wraps), and it has made one transfer, at the offset
  \<open>eld_mblen\<close> had when the call started, between taking and releasing the write lock.
  No other entry point of the module changes the \<open>eld_mblen\<close> of any record.
\<close>

theorem write_advances_mblen:
  assumes res: "mblock2layout E s mbh \<noteq> NULL"
      and unc: "eld_state (layouts s mbh) AND PMD_LYT_COMMITTED = 0"
      and len: "len \<noteq> 0"
      and ok: "mblock_write E s mbh iov iovcnt len = (Inr 0, s')"
  shows "unat (eld_mblen (layouts s' mbh)) = unat (eld_mblen (layouts s mbh)) + unat len \<and>
         calls s' = calls s @
           [Pmd_obj_wrlock mbh,
            Pmd_layout_rw mbh iov iovcnt (ucast (eld_mblen (layouts s mbh)))
              (if pdi_fua (pmd_layout_pd_get E mbh) then REQ_FUA else REQ_NONE) MPOOL_OP_WRITE,
            Pmd_obj_wrunlock mbh] \<and>
         (\<forall>c t p. \<not> is_write_call c \<longrightarrow>
            eld_mblen (layouts (mblock_api E t c) p) = eld_mblen (layouts t p))"
proof -
  note w = mblock_write_success [OF res len ok]
  have small: "unat len < 2 ^ 43"
    using w(2) by (rule iovcnt_bounds_len)
  have fits: "\<not> (ucast (pmd_layout_cap_get E mbh) :: u64) < len + ucast (eld_mblen (layouts s mbh))"
    using write_argcheck_ok(1) [OF w(1)] .
  have "unat (eld_mblen (layouts s mbh) + ucast len) = unat (eld_mblen (layouts s mbh)) + unat len"
    using small fits by (rule write_no_wrap)
  then have adv: "unat (eld_mblen (layouts s' mbh)) = unat (eld_mblen (layouts s mbh)) + unat len"
    by (simp add: w(4))
  have tr: "calls s' = calls s @
           [Pmd_obj_wrlock mbh,
            Pmd_layout_rw mbh iov iovcnt (ucast (eld_mblen (layouts s mbh)))
              (if pdi_fua (pmd_layout_pd_get E mbh) then REQ_FUA else REQ_NONE) MPOOL_OP_WRITE,
            Pmd_obj_wrunlock mbh]"
    by (simp add: w(4))
  from adv tr show ?thesis
    by (simp add: api_keeps_mblen)
qed

theorem write_advances_mblen_witness:
  "mblock2layout env0 st0 1 \<noteq> NULL \<and>
   eld_state (layouts st0 1) AND PMD_LYT_COMMITTED = 0 \<and>
   fst (mblock_write env0 st0 1 [] 1 4096) = Inr 0 \<and>
   unat (eld_mblen (layouts (snd (mblock_write env0 st0 1 [] 1 4096)) 1)) = 4096 \<and>
   calls (snd (mblock_write env0 st0 1 [] 1 4096)) =
     [Pmd_obj_wrlock 1, Pmd_layout_rw 1 [] 1 0 REQ_NONE MPOOL_OP_WRITE, Pmd_obj_wrunlock 1]"
proof -
  have res: "mblock2layout env0 st0 1 \<noteq> NULL"
    by (simp add: handle_defs pool0_defs)
  have unc: "eld_state (layouts st0 1) AND PMD_LYT_COMMITTED = 0"
    by (simp add: pool0_defs PMD_LYT_COMMITTED_def)
  have ok: "fst (mblock_write env0 st0 1 [] 1 4096) = Inr 0"
    by (simp add: mblock_write_def mblock_rw_argcheck_def handle_defs dir_defs pool0_defs
        errno_defs page_defs PMD_LYT_COMMITTED_def)
  then have eq: "mblock_write env0 st0 1 [] 1 4096 = (Inr 0, snd (mblock_write env0 st0 1 [] 1 4096))"
    by (simp add: prod_eq_iff)
  have m0: "eld_mblen (layouts st0 1) = 0" "pdi_fua (pmd_layout_pd_get env0 1) = False"
    "calls st0 = []"
    by (simp_all add: pool0_defs)
  from write_advances_mblen [OF res unc _ eq] res unc ok m0
  show ?thesis by simp
qed

section \<open>Writes that are rejected\<close>





section \<open>Transfers of length zero\<close>




section \<open>Reads past the data written\<close>

text \<open>
  C5, as the code has it. No length is treated as a read-ahead sentinel: the check that
  the request does not extend past the data written applies to every length (the code
  names \<^verbatim>\<open>MCACHE_RA_PAGES_MAX\<close> only in a TODO comment, and leaves out the log
  message on this path). A read whose offset plus length, as the code computes it in 64
  bits, exceeds \<open>eld_mblen\<close> returns \<open>EINVAL\<close> in the state it was called in; so
  does one whose sum of numbers exceeds \<open>eld_mblen\<close>, when the offset is not negative
  and the sum is below \<open>2 ^ 64\<close>.
\<close>

theorem read_past_written_rejected:
  assumes res: "mblock2layout E s mbh \<noteq> NULL"
      and past: "ucast (eld_mblen (layouts s mbh)) < boff + len \<or>
                 (unat boff + unat len < 2 ^ 64 \<and>
                  unat (eld_mblen (layouts s mbh)) < unat boff + unat len)"
  shows "mblock_read E s (Some mp) mbh iov iovcnt boff len = (Inr (merr EINVAL), s)"
proof -
  have "ucast (eld_mblen (layouts s mbh)) < boff + len"
    if "unat boff + unat len < 2 ^ 64"
      and "unat (eld_mblen (layouts s mbh)) < unat boff + unat len"
  proof -
    from that(1) have "unat (boff + len) = unat boff + unat len"
      using unat_add_lem [of boff len] by simp
    with that(2) show ?thesis
      by (simp add: word_less_nat_alt unat_ucast_u32)
  qed
  with past have "ucast (eld_mblen (layouts s mbh)) < boff + len"
    by auto
  then show ?thesis
    using res resolves_eq [OF res]
    by (simp add: mblock_read_def mblock_rw_argcheck_def Let_def errno_defs)
qed

theorem read_past_written_rejected_witness:
  "mblock2layout env0 st_committed 1 \<noteq> NULL \<and>
   unat (eld_mblen (layouts st_committed 1)) < unat (4096 :: loff_t) + unat (131072 :: size_t) \<and>
   mblock_read env0 st_committed (Some mp0) 1 [] 32 4096 131072 = (Inr 22, st_committed) \<and>
   mblock_read env0 st_committed (Some mp0) 1 [] 1 4096 4096 = (Inr 22, st_committed)"
proof -
  have res: "mblock2layout env0 st_committed 1 \<noteq> NULL"
    by (simp add: handle_defs pool0_defs)
  have m: "eld_mblen (layouts st_committed 1) = 4096"
    by (simp add: pool0_defs)
  from read_past_written_rejected [OF res, of 4096 131072 mp0 "[]" 32]
    read_past_written_rejected [OF res, of 4096 4096 mp0 "[]" 1] res m
  show ?thesis by (simp add: errno_defs)
qed

text \<open>
  The claim as it was stated fails: on the committed mblock of the small pool, which
  holds 4096 bytes, there is no length at all for which a read at offset 0 that extends
  past the data written is let through.
\<close>

theorem read_sentinel_counterexample:
  "\<not> (\<exists>len iovcnt. ucast (eld_mblen (layouts st_committed 1)) < 0 + len \<and>
        fst (mblock_read env0 st_committed (Some mp0) 1 [] iovcnt 0 len) \<noteq> Inr (merr EINVAL))"
proof -
  have res: "mblock2layout env0 st_committed 1 = 1"
    by (simp add: handle_defs pool0_defs)
  have "fst (mblock_read env0 st_committed (Some mp0) 1 [] iovcnt 0 len) = Inr (merr EINVAL)"
    if "ucast (eld_mblen (layouts st_committed 1)) < 0 + len" for len iovcnt
    using that res
    by (simp add: mblock_read_def mblock_rw_argcheck_def Let_def errno_defs)
  then show ?thesis by blast
qed

section \<open>Reads wait for the commit\<close>

lemma resolves_nonnull: "mblock2layout E s mbh \<noteq> NULL \<Longrightarrow> mbh \<noteq> NULL"
  by (cases "mbh = NULL") (simp_all add: mblock2layout_def)

lemma read_argcheck_aligned:
  "mblock_rw_argcheck E s layout boff MPOOL_OP_READ len = Inr 0 \<Longrightarrow> PAGE_ALIGNED boff"
  by (simp add: mblock_rw_argcheck_def Let_def errno_defs split: if_splits)

lemma read_argcheck_frame:
  assumes "eld_mblen (layouts s' layout) = eld_mblen (layouts s layout)"
  shows "mblock_rw_argcheck E s' layout boff rw len = mblock_rw_argcheck E s layout boff rw len"
  by (simp only: mblock_rw_argcheck_def assms)

lemma commit_success:
  assumes res: "mblock2layout E s mbh \<noteq> NULL"
      and ok: "mblock_commit E s mbh = (Inr 0, s1)"
  shows "eld_state (layouts s1 mbh) = eld_state (layouts s mbh) OR PMD_LYT_COMMITTED"
    and "eld_objid (layouts s1 mbh) = eld_objid (layouts s mbh)"
    and "eld_mblen (layouts s1 mbh) = eld_mblen (layouts s mbh)"
  using ok res resolves_eq [OF res]
  by (auto simp add: mblock_commit_def Let_def dir_defs split: if_splits)

lemma or_and_absorb: "((x :: u8) OR y) AND y = y"
  by (rule bit_eqI) (auto simp add: bit_simps)

lemma committed_bit_set: "((x :: u8) OR PMD_LYT_COMMITTED) AND PMD_LYT_COMMITTED \<noteq> 0"
  by (simp add: or_and_absorb PMD_LYT_COMMITTED_def)

lemma committed_or_idem:
  assumes "(x :: u8) AND PMD_LYT_COMMITTED \<noteq> 0"
  shows "x OR PMD_LYT_COMMITTED = x"
proof -
  from assms have "x mod 2 \<noteq> 0"
    by (simp add: PMD_LYT_COMMITTED_def and_one_eq)
  then have "odd x"
    by (simp add: even_iff_mod_2_eq_zero)
  then show ?thesis
    by (simp only: PMD_LYT_COMMITTED_def or_one_eq) simp
qed

text \<open>
  C3, as the code has it. While the mblock is not committed no read transfers data: the
  call leaves memory alone and at most takes and releases the read lock. A read that
  passes validation, has \<open>len > 0\<close> and meets the asserted contract of the caller
  returns \<open>EAGAIN\<close>; a read with invalid arguments returns \<open>EINVAL\<close> and a valid
  read of length 0 succeeds, both before the committed flag is looked at. After a
  successful commit the same read is no longer stopped by the flag: it makes the transfer
  and returns what the transfer returns.
\<close>

theorem read_gated_by_commit:
  assumes res: "mblock2layout E s mbh \<noteq> NULL"
      and unc: "eld_state (layouts s mbh) AND PMD_LYT_COMMITTED = 0"
  shows "layouts (snd (mblock_read E s mp mbh iov iovcnt boff len)) = layouts s \<and>
         (calls (snd (mblock_read E s mp mbh iov iovcnt boff len)) = calls s \<or>
          calls (snd (mblock_read E s mp mbh iov iovcnt boff len)) =
            calls s @ [Pmd_obj_rdlock mbh, Pmd_obj_rdunlock mbh]) \<and>
         (mp \<noteq> None \<and> mblock_rw_argcheck E s mbh boff MPOOL_OP_READ len = Inr 0 \<and> len \<noteq> 0 \<and>
          PAGE_ALIGNED len \<and> (scast iovcnt :: u64) = drop_bit PAGE_SHIFT len \<longrightarrow>
            mblock_read E s mp mbh iov iovcnt boff len =
              (Inr (merr EAGAIN), s\<lparr>calls := calls s @ [Pmd_obj_rdlock mbh, Pmd_obj_rdunlock mbh]\<rparr>) \<and>
            (\<forall>s1. mblock_commit E s mbh = (Inr 0, s1) \<longrightarrow>
               mblock_read E s1 mp mbh iov iovcnt boff len =
                 (Inr (pmd_layout_rw_ret E (s1\<lparr>calls := calls s1 @ [Pmd_obj_rdlock mbh]\<rparr>)
                         mbh iov iovcnt boff REQ_NONE MPOOL_OP_READ),
                  s1\<lparr>calls := calls s1 @
                    [Pmd_obj_rdlock mbh,
                     Pmd_layout_rw mbh iov iovcnt boff REQ_NONE MPOOL_OP_READ,
                     Pmd_obj_rdunlock mbh]\<rparr>)))"
proof -
  note h = res resolves_eq [OF res]
  have nz: "mbh \<noteq> NULL"
    using res by (rule resolves_nonnull)
  have frame: "layouts (snd (mblock_read E s mp mbh iov iovcnt boff len)) = layouts s"
    by (rule read_layouts)
  have tr: "calls (snd (mblock_read E s mp mbh iov iovcnt boff len)) = calls s \<or>
      calls (snd (mblock_read E s mp mbh iov iovcnt boff len)) =
        calls s @ [Pmd_obj_rdlock mbh, Pmd_obj_rdunlock mbh]"
    using h unc by (simp add: mblock_read_def Let_def dir_defs split: sum.splits)
  have gate: "mblock_read E s mp mbh iov iovcnt boff len =
      (Inr (merr EAGAIN), s\<lparr>calls := calls s @ [Pmd_obj_rdlock mbh, Pmd_obj_rdunlock mbh]\<rparr>)"
    if "mp \<noteq> None" "mblock_rw_argcheck E s mbh boff MPOOL_OP_READ len = Inr 0" "len \<noteq> 0"
      "PAGE_ALIGNED len" "(scast iovcnt :: u64) = drop_bit PAGE_SHIFT len"
    using that h unc read_argcheck_aligned [OF that(2)]
    by (simp add: mblock_read_def Let_def dir_defs)
  have after: "mblock_read E s1 mp mbh iov iovcnt boff len =
      (Inr (pmd_layout_rw_ret E (s1\<lparr>calls := calls s1 @ [Pmd_obj_rdlock mbh]\<rparr>)
              mbh iov iovcnt boff REQ_NONE MPOOL_OP_READ),
       s1\<lparr>calls := calls s1 @
         [Pmd_obj_rdlock mbh,
          Pmd_layout_rw mbh iov iovcnt boff REQ_NONE MPOOL_OP_READ,
          Pmd_obj_rdunlock mbh]\<rparr>)"
    if v: "mp \<noteq> None" "mblock_rw_argcheck E s mbh boff MPOOL_OP_READ len = Inr 0" "len \<noteq> 0"
      "PAGE_ALIGNED len" "(scast iovcnt :: u64) = drop_bit PAGE_SHIFT len"
      and c: "mblock_commit E s mbh = (Inr 0, s1)" for s1
  proof -
    note cs = commit_success [OF res c]
    have res1: "mblock2layout E s1 mbh = mbh"
      using h cs(2) by (simp add: mblock2layout_def)
    have chk: "mblock_rw_argcheck E s1 mbh boff MPOOL_OP_READ len = Inr 0"
      using v(2) read_argcheck_frame [OF cs(3)] by simp
    have com: "eld_state (layouts s1 mbh) AND PMD_LYT_COMMITTED \<noteq> 0"
      using cs(1) committed_bit_set by simp
    show ?thesis
      using v res1 chk com nz read_argcheck_aligned [OF v(2)]
      by (simp add: mblock_read_def Let_def dir_defs)
  qed
  from frame tr gate after show ?thesis by blast
qed

theorem read_gated_by_commit_witness:
  "mblock2layout env0 st_written 1 \<noteq> NULL \<and>
   eld_state (layouts st_written 1) AND PMD_LYT_COMMITTED = 0 \<and>
   mblock_read env0 st_written (Some mp0) 1 [] 1 0 4096 =
     (Inr 11, st_written\<lparr>calls := [Pmd_obj_rdlock 1, Pmd_obj_rdunlock 1]\<rparr>) \<and>
   fst (mblock_commit env0 st_written 1) = Inr 0 \<and>
   fst (mblock_read env0 (snd (mblock_commit env0 st_written 1)) (Some mp0) 1 [] 1 0 4096) = Inr 0 \<and>
   calls (snd (mblock_read env0 (snd (mblock_commit env0 st_written 1)) (Some mp0) 1 [] 1 0 4096)) =
     [Pd_dev_flush dev0, Pmd_obj_commit 1, Pmd_obj_rdlock 1,
      Pmd_layout_rw 1 [] 1 0 REQ_NONE MPOOL_OP_READ, Pmd_obj_rdunlock 1]"
proof -
  have res: "mblock2layout env0 st_written 1 \<noteq> NULL"
    by (simp add: handle_defs pool0_defs)
  have unc: "eld_state (layouts st_written 1) AND PMD_LYT_COMMITTED = 0"
    by (simp add: pool0_defs PMD_LYT_COMMITTED_def)
  have chk: "mblock_rw_argcheck env0 st_written 1 0 MPOOL_OP_READ 4096 = Inr 0"
    by (simp add: mblock_rw_argcheck_def handle_defs pool0_defs page_defs word_sle_eq)
  have al: "PAGE_ALIGNED 4096" "(scast (1 :: c_int) :: u64) = drop_bit PAGE_SHIFT 4096"
    by (simp_all add: page_defs)
  have c: "fst (mblock_commit env0 st_written 1) = Inr 0"
    "calls (snd (mblock_commit env0 st_written 1)) = [Pd_dev_flush dev0, Pmd_obj_commit 1]"
    by (simp_all add: mblock_commit_def handle_defs dir_defs pool0_defs)
  then have ceq: "mblock_commit env0 st_written 1 = (Inr 0, snd (mblock_commit env0 st_written 1))"
    by (simp add: prod_eq_iff)
  have rw: "pmd_layout_rw_ret env0 t 1 [] 1 0 REQ_NONE MPOOL_OP_READ = 0"
    "calls st_written = []" for t
    by (simp_all add: pool0_defs)
  from read_gated_by_commit [OF res unc, of "Some mp0" "[]" 1 0 4096] chk al ceq
  have "mblock_read env0 st_written (Some mp0) 1 [] 1 0 4096 =
      (Inr (merr EAGAIN), st_written\<lparr>calls := calls st_written @ [Pmd_obj_rdlock 1, Pmd_obj_rdunlock 1]\<rparr>)"
    and "mblock_read env0 (snd (mblock_commit env0 st_written 1)) (Some mp0) 1 [] 1 0 4096 =
      (Inr (pmd_layout_rw_ret env0
              (snd (mblock_commit env0 st_written 1)
                 \<lparr>calls := calls (snd (mblock_commit env0 st_written 1)) @ [Pmd_obj_rdlock 1]\<rparr>)
              1 [] 1 0 REQ_NONE MPOOL_OP_READ),
       snd (mblock_commit env0 st_written 1)
         \<lparr>calls := calls (snd (mblock_commit env0 st_written 1)) @
            [Pmd_obj_rdlock 1, Pmd_layout_rw 1 [] 1 0 REQ_NONE MPOOL_OP_READ,
             Pmd_obj_rdunlock 1]\<rparr>)"
    by simp_all
  with res unc c rw show ?thesis
    by (simp add: errno_defs)
qed

text \<open>
  The claim as it was stated fails: before any commit, a read of length 0 with valid
  arguments succeeds, and a read past the data written returns \<open>EINVAL\<close>; neither
  returns \<open>EAGAIN\<close>.
\<close>

theorem read_gated_by_commit_counterexample:
  "mblock2layout env0 st0 1 \<noteq> NULL \<and>
   eld_state (layouts st0 1) AND PMD_LYT_COMMITTED = 0 \<and>
   mblock_read env0 st0 (Some mp0) 1 [] 0 0 0 = (Inr 0, st0) \<and>
   mblock_read env0 st0 (Some mp0) 1 [] 1 0 4096 = (Inr (merr EINVAL), st0) \<and>
   merr EINVAL \<noteq> merr EAGAIN \<and> (0 :: merr_t) \<noteq> merr EAGAIN"
  by (simp add: mblock_read_def mblock_rw_argcheck_def handle_defs pool0_defs
      errno_defs page_defs word_sle_eq PMD_LYT_COMMITTED_def)

section \<open>Commit freezes the mblock\<close>

text \<open>
  Once the committed bit is set, no entry point changes the record except for its
  reference count.
\<close>

lemma alloc_cmn_layouts:
  "layouts (snd (snd (snd (mblock_alloc_cmn E s mp objid mclassp spare prop mbh)))) = layouts s"
  by (simp add: mblock_alloc_cmn_def Let_def dir_defs split: option.splits sum.splits)

lemma find_get_upto_ref:
  "layouts (snd (snd (snd (mblock_find_get E s objid which prop mbh)))) p =
     (layouts s p)
       \<lparr>eld_ref := eld_ref (layouts (snd (snd (snd (mblock_find_get E s objid which prop mbh)))) p)\<rparr>"
  by (simp add: mblock_find_get_def Let_def dir_defs split: option.splits sum.splits)

lemma put_upto_ref:
  "layouts (mblock_put E s mbh) p =
     (layouts s p)\<lparr>eld_ref := eld_ref (layouts (mblock_put E s mbh) p)\<rparr>"
  by (simp add: mblock_put_def Let_def dir_defs)

lemma commit_frozen:
  assumes "eld_state (layouts s p) AND PMD_LYT_COMMITTED \<noteq> 0"
  shows "layouts (snd (mblock_commit E s mbh)) p = layouts s p"
  using committed_or_idem [OF assms]
  by (auto simp add: mblock_commit_def Let_def dir_defs)

lemma abort_delete_layouts:
  "layouts (snd (mblock_abort E s mbh)) = layouts s"
  "layouts (snd (mblock_delete E s mbh)) = layouts s"
  by (simp_all add: mblock_abort_def mblock_delete_def Let_def dir_defs)

lemma write_frozen:
  assumes "eld_state (layouts s p) AND PMD_LYT_COMMITTED \<noteq> 0"
  shows "layouts (snd (mblock_write E s mbh iov iovcnt len)) p = layouts s p"
  using assms
  by (auto simp add: mblock_write_def Let_def dir_defs split: sum.splits)

lemma api_frozen:
  assumes "eld_state (layouts s p) AND PMD_LYT_COMMITTED \<noteq> 0"
  shows "layouts (mblock_api E s c) p =
           (layouts s p)\<lparr>eld_ref := eld_ref (layouts (mblock_api E s c) p)\<rparr>"
proof (cases c)
  case (Mblock_find_get objid sel pr mbh)
  then show ?thesis using find_get_upto_ref [of E s objid sel pr mbh p] by simp
next
  case (Mblock_put mbh)
  then show ?thesis using put_upto_ref [of E s mbh p] by simp
next
  case (Mblock_commit mbh)
  then show ?thesis by (simp add: commit_frozen [OF assms])
next
  case (Mblock_write mbh iov iovcnt len)
  then show ?thesis by (simp add: write_frozen [OF assms])
next
  case (Mblock_alloc mp mclassp spare mbh pr)
  then show ?thesis by (simp add: mblock_alloc_def alloc_cmn_layouts)
next
  case (Mblock_realloc mp objid mclassp spare mbh pr)
  then show ?thesis by (simp add: mblock_realloc_def alloc_cmn_layouts)
next
  case (Mblock_abort mbh)
  then show ?thesis by (simp add: abort_delete_layouts)
next
  case (Mblock_delete mbh)
  then show ?thesis by (simp add: abort_delete_layouts)
next
  case (Mblock_read mp mbh iov iovcnt boff len)
  then show ?thesis by (simp add: read_layouts)
next
  case (Mblock_get_props mbh pr)
  then show ?thesis by (simp add: get_props_layouts)
next
  case (Mblock_get_props_ex mbh pr)
  then show ?thesis by (simp add: get_props_layouts)
qed

lemma upto_ref_trans:
  "l2 = l1\<lparr>eld_ref := a\<rparr> \<Longrightarrow> l1 = l0\<lparr>eld_ref := b\<rparr> \<Longrightarrow> l2 = l0\<lparr>eld_ref := eld_ref l2\<rparr>"
  by simp

lemma run_frozen:
  "eld_state (layouts s p) AND PMD_LYT_COMMITTED \<noteq> 0 \<Longrightarrow>
     layouts (mblock_run E s cs) p =
       (layouts s p)\<lparr>eld_ref := eld_ref (layouts (mblock_run E s cs) p)\<rparr>"
proof (induction cs arbitrary: s)
  case Nil
  show ?case by (simp add: mblock_run_def)
next
  case (Cons c cs)
  note step = api_frozen [OF Cons.prems, of E c]
  have "eld_state (layouts (mblock_api E s c) p) = eld_state (layouts s p)"
    by (subst step) simp
  with Cons.prems have "eld_state (layouts (mblock_api E s c) p) AND PMD_LYT_COMMITTED \<noteq> 0"
    by simp
  from Cons.IH [OF this] step
  have "layouts (mblock_run E (mblock_api E s c) cs) p =
      (layouts s p)\<lparr>eld_ref := eld_ref (layouts (mblock_run E (mblock_api E s c) cs) p)\<rparr>"
    by (rule upto_ref_trans)
  then show ?case by (simp add: mblock_run_def)
qed

lemma get_props_upto_ref:
  assumes "layouts s' mbh = (layouts s mbh)\<lparr>eld_ref := r\<rparr>"
  shows "fst (mblock_get_props E s' mbh prop) = fst (mblock_get_props E s mbh prop)"
    and "fst (snd (mblock_get_props E s' mbh prop)) = fst (snd (mblock_get_props E s mbh prop))"
  using assms
  by (simp_all add: mblock_get_props_def mblock_getprops_cmn_def handle_defs dir_defs Let_def
      split: option.splits)

text \<open>
  C2, as the code has it. On a committed mblock no write changes memory, so
  \<open>eld_mblen\<close> stays; no write of \<open>len > 0\<close> succeeds; and a write that passes
  validation with \<open>len > 0\<close> and meets the asserted contract of the caller returns
  \<open>EALREADY\<close>, having only taken and released the write lock. (A write with invalid
  arguments returns \<open>EINVAL\<close> and a valid write of length 0 returns success, both
  before the committed flag is looked at.) After any sequence of calls of the module,
  a property query on the handle returns what it returned before the sequence: the same
  result and the same snapshot, capacity and written length included.
\<close>

theorem committed_is_frozen:
  assumes res: "mblock2layout E s mbh \<noteq> NULL"
      and com: "eld_state (layouts s mbh) AND PMD_LYT_COMMITTED \<noteq> 0"
  shows "layouts (snd (mblock_write E s mbh iov iovcnt len)) = layouts s \<and>
         (len \<noteq> 0 \<longrightarrow> fst (mblock_write E s mbh iov iovcnt len) \<noteq> Inr 0) \<and>
         (mblock_rw_argcheck E s mbh (ucast (eld_mblen (layouts s mbh))) MPOOL_OP_WRITE len = Inr 0 \<and>
          len \<noteq> 0 \<and> PAGE_ALIGNED len \<and> (scast iovcnt :: u64) = drop_bit PAGE_SHIFT len \<and>
          PAGE_ALIGNED (ucast (eld_mblen (layouts s mbh))) \<longrightarrow>
            mblock_write E s mbh iov iovcnt len =
              (Inr (merr EALREADY),
               s\<lparr>calls := calls s @ [Pmd_obj_wrlock mbh, Pmd_obj_wrunlock mbh]\<rparr>)) \<and>
         (\<forall>cs prop.
            fst (mblock_get_props E (mblock_run E s cs) mbh prop) =
              fst (mblock_get_props E s mbh prop) \<and>
            fst (snd (mblock_get_props E (mblock_run E s cs) mbh prop)) =
              fst (snd (mblock_get_props E s mbh prop)))"
proof -
  note h = resolves_eq [OF res] resolves_nonnull [OF res]
  have mem: "layouts (snd (mblock_write E s mbh iov iovcnt len)) = layouts s"
    using h com by (simp add: mblock_write_def Let_def dir_defs split: sum.splits)
  have nosucc: "fst (mblock_write E s mbh iov iovcnt len) \<noteq> Inr 0" if "len \<noteq> 0"
    using h com that by (simp add: mblock_write_def Let_def dir_defs errno_defs split: sum.splits)
  have gate: "mblock_write E s mbh iov iovcnt len =
      (Inr (merr EALREADY), s\<lparr>calls := calls s @ [Pmd_obj_wrlock mbh, Pmd_obj_wrunlock mbh]\<rparr>)"
    if "mblock_rw_argcheck E s mbh (ucast (eld_mblen (layouts s mbh))) MPOOL_OP_WRITE len = Inr 0"
      "len \<noteq> 0" "PAGE_ALIGNED len" "(scast iovcnt :: u64) = drop_bit PAGE_SHIFT len"
      "PAGE_ALIGNED (ucast (eld_mblen (layouts s mbh)))"
    using h com that by (simp add: mblock_write_def Let_def dir_defs)
  have props: "fst (mblock_get_props E (mblock_run E s cs) mbh pr) =
        fst (mblock_get_props E s mbh pr) \<and>
      fst (snd (mblock_get_props E (mblock_run E s cs) mbh pr)) =
        fst (snd (mblock_get_props E s mbh pr))" for cs pr
  proof -
    from run_frozen [OF com, of E cs] show ?thesis
      by (simp add: get_props_upto_ref)
  qed
  from mem nosucc gate props show ?thesis by blast
qed

theorem committed_is_frozen_witness:
  "mblock2layout env0 st_committed 1 \<noteq> NULL \<and>
   eld_state (layouts st_committed 1) AND PMD_LYT_COMMITTED \<noteq> 0 \<and>
   mblock_write env0 st_committed 1 [] 1 4096 =
     (Inr 114, st_committed\<lparr>calls := [Pmd_obj_wrlock 1, Pmd_obj_wrunlock 1]\<rparr>) \<and>
   fst (snd (mblock_get_props env0
      (mblock_run env0 st_committed [Mblock_write 1 [] 1 4096, Mblock_commit 1, Mblock_put 1])
      1 (Some props0))) =
     Some \<lparr>mpr_objid = 0x101, mpr_alloc_cap = 8192, mpr_write_len = 4096,
           mpr_optimal_wrsz = 4096, mpr_mclassp = 0, mpr_iscommitted = 1\<rparr>"
proof -
  have res: "mblock2layout env0 st_committed 1 \<noteq> NULL"
    by (simp add: handle_defs pool0_defs)
  have com: "eld_state (layouts st_committed 1) AND PMD_LYT_COMMITTED \<noteq> 0"
    by (simp add: pool0_defs PMD_LYT_COMMITTED_def)
  have chk: "mblock_rw_argcheck env0 st_committed 1 (ucast (eld_mblen (layouts st_committed 1)))
      MPOOL_OP_WRITE 4096 = Inr 0"
    by (simp add: mblock_rw_argcheck_def handle_defs pool0_defs)
  have al: "PAGE_ALIGNED 4096" "(scast (1 :: c_int) :: u64) = drop_bit PAGE_SHIFT 4096"
    "PAGE_ALIGNED (ucast (eld_mblen (layouts st_committed 1)))" "calls st_committed = []"
    by (simp_all add: page_defs pool0_defs)
  have now: "fst (snd (mblock_get_props env0 st_committed 1 (Some props0))) =
      Some \<lparr>mpr_objid = 0x101, mpr_alloc_cap = 8192, mpr_write_len = 4096,
            mpr_optimal_wrsz = 4096, mpr_mclassp = 0, mpr_iscommitted = 1\<rparr>"
    by (simp add: mblock_get_props_def mblock_getprops_cmn_def handle_defs dir_defs pool0_defs
        PMD_LYT_COMMITTED_def)
  from committed_is_frozen [OF res com, of "[]" 1 4096] res com chk al now
  show ?thesis by (simp add: errno_defs)
qed

text \<open>
  The claim as it was stated fails: on a committed mblock a write of length 0 returns
  success, and a write that would exceed the capacity returns \<open>EINVAL\<close>; neither
  returns \<open>EALREADY\<close>.
\<close>

theorem committed_is_frozen_counterexample:
  "mblock2layout env0 st_committed 1 \<noteq> NULL \<and>
   eld_state (layouts st_committed 1) AND PMD_LYT_COMMITTED \<noteq> 0 \<and>
   mblock_write env0 st_committed 1 [] 0 0 = (Inr 0, st_committed) \<and>
   mblock_write env0 st_committed 1 [] 2 8192 = (Inr (merr EINVAL), st_committed) \<and>
   merr EINVAL \<noteq> merr EALREADY \<and> (0 :: merr_t) \<noteq> merr EALREADY"
  by (simp add: mblock_write_def mblock_rw_argcheck_def handle_defs pool0_defs
      errno_defs PMD_LYT_COMMITTED_def)

end
